theory Spec2Isabelle
  imports Main
begin

section \<open>JavaScript values\<close>

text \<open>
  The values handled by \<^verbatim>\<open>includes/heroprotocol.js\<close>: primitives, \<^verbatim>\<open>Buffer\<close>s (binary
  leaves), arrays and plain objects. An object is the list of its own enumerable properties
  in \<^verbatim>\<open>for ... in\<close> order. Numbers are the integers the decoders produce.
\<close>

datatype jsval =
    Undefined
  | Null
  | Bool bool
  | Num int
  | Str string
  | Buf string
  | Arr "jsval list"
  | Obj "(string \<times> jsval) list"

text \<open>A thrown value: an \<^verbatim>\<open>Error\<close> with its message.\<close>

datatype error = Error string

text \<open>A call either returns or raises.\<close>

datatype 'a outcome = Returned 'a | Raised error

text \<open>\<^verbatim>\<open>!data\<close> is true exactly for the falsy values; every object is truthy.\<close>

fun truthy :: "jsval \<Rightarrow> bool" where
  "truthy Undefined = False"
| "truthy Null = False"
| "truthy (Bool b) = b"
| "truthy (Num n) = (n \<noteq> 0)"
| "truthy (Str s) = (s \<noteq> [])"
| "truthy (Buf b) = True"
| "truthy (Arr xs) = True"
| "truthy (Obj kvs) = True"

text \<open>
  \<^verbatim>\<open>a === b\<close>: primitives compare by value. Buffers, arrays and objects compare by
  reference; the two sides of the one comparison in the source (line 135) are a field of a
  freshly decoded event and a field of the caller's criterion, which are never the same
  object.
\<close>

fun strict_eq :: "jsval \<Rightarrow> jsval \<Rightarrow> bool" where
  "strict_eq Undefined Undefined = True"
| "strict_eq Null Null = True"
| "strict_eq (Bool a) (Bool b) = (a = b)"
| "strict_eq (Num a) (Num b) = (a = b)"
| "strict_eq (Str a) (Str b) = (a = b)"
| "strict_eq _ _ = False"

text \<open>\<^verbatim>\<open>obj[key]\<close> on a plain object: \<^verbatim>\<open>undefined\<close> when the property is absent.\<close>

fun field :: "(string \<times> jsval) list \<Rightarrow> string \<Rightarrow> jsval" where
  "field [] key = Undefined"
| "field ((k, v) # kvs) key = (if k = key then v else field kvs key)"

text \<open>
  \<^verbatim>\<open>data[key]\<close> on any value: a \<^verbatim>\<open>TypeError\<close> on \<^verbatim>\<open>undefined\<close> and \<^verbatim>\<open>null\<close>, the
  property on a plain object. The source reads the decoder's field names
  (\<^verbatim>\<open>m_version\<close>, \<^verbatim>\<open>m_baseBuild\<close>) and the keys of a criterion on an event this way.
  The built-in properties of strings, buffers and arrays (\<^verbatim>\<open>length\<close>, indices) and the
  properties every object inherits (\<^verbatim>\<open>constructor\<close>, \<^verbatim>\<open>toString\<close>, ...) are not modelled:
  they read as \<^verbatim>\<open>undefined\<close>, so \<open>get_prop\<close> describes the source for keys that are none
  of these.
\<close>

fun get_prop :: "jsval \<Rightarrow> string \<Rightarrow> error + jsval" where
  "get_prop Undefined key = Inl (Error ''TypeError: Cannot read properties of undefined'')"
| "get_prop Null key = Inl (Error ''TypeError: Cannot read properties of null'')"
| "get_prop (Obj kvs) key = Inr (field kvs key)"
| "get_prop _ key = Inr Undefined"

section \<open>parseStrings (lines 31-41)\<close>

text \<open>
  \<^verbatim>\<open>Buffer.prototype.toString\<close> is Node's; it is the parameter \<open>ts\<close>. The equations follow
  the source's tests in order: falsy values first (only primitives are falsy), then
  buffers, arrays, objects, and last the remaining primitives. The in-place update of an
  object's properties is the returned object.
\<close>

fun parseStrings :: "(string \<Rightarrow> string) \<Rightarrow> jsval \<Rightarrow> jsval" where
  "parseStrings ts Undefined = Undefined"
| "parseStrings ts Null = Null"
| "parseStrings ts (Buf b) = Str (ts b)"
| "parseStrings ts (Arr xs) = Arr (map (parseStrings ts) xs)"
| "parseStrings ts (Obj kvs) = Obj (map (\<lambda>(key, v). (key, parseStrings ts v)) kvs)"
| "parseStrings ts data = data"

section \<open>String conversion\<close>

text \<open>
  \<^verbatim>\<open>'protocol ' + archive.baseBuild\<close> and the template literals convert a value to a
  string as JavaScript does: an integer in decimal, an array as its elements joined by
  commas.
\<close>

fun string_of_nat :: "nat \<Rightarrow> string" where
  "string_of_nat n =
     (if n < 10 then [''0123456789'' ! n]
      else string_of_nat (n div 10) @ [''0123456789'' ! (n mod 10)])"

definition string_of_int :: "int \<Rightarrow> string" where
  "string_of_int i =
     (if i < 0 then CHR ''-'' # string_of_nat (nat (- i)) else string_of_nat (nat i))"

text \<open>The number a string of decimal digits denotes, to state what \<open>string_of_nat\<close> writes.\<close>

definition decimal_value :: "string \<Rightarrow> nat" where
  "decimal_value s = foldl (\<lambda>acc c. 10 * acc + (of_char c - 48)) 0 s"

fun join_comma :: "string list \<Rightarrow> string" where
  "join_comma [] = []"
| "join_comma [s] = s"
| "join_comma (s # t # rest) = s @ CHR '','' # join_comma (t # rest)"

fun to_string :: "(string \<Rightarrow> string) \<Rightarrow> jsval \<Rightarrow> string" where
  "to_string ts Undefined = ''undefined''"
| "to_string ts Null = ''null''"
| "to_string ts (Bool b) = (if b then ''true'' else ''false'')"
| "to_string ts (Num n) = string_of_int n"
| "to_string ts (Str s) = s"
| "to_string ts (Buf b) = ts b"
| "to_string ts (Arr xs) =
     join_comma (map (\<lambda>x. if x = Undefined \<or> x = Null then [] else to_string ts x) xs)"
| "to_string ts (Obj kvs) = ''[object Object]''"

section \<open>Section names and the decoder map (lines 11-29)\<close>

definition HEADER :: string where "HEADER = ''header''"
definition DETAILS :: string where "DETAILS = ''replay.details''"
definition INITDATA :: string where "INITDATA = ''replay.initdata''"
definition GAME_EVENTS :: string where "GAME_EVENTS = ''replay.game.events''"
definition MESSAGE_EVENTS :: string where "MESSAGE_EVENTS = ''replay.message.events''"
definition TRACKER_EVENTS :: string where "TRACKER_EVENTS = ''replay.tracker.events''"
definition ATTRIBUTES_EVENTS :: string where "ATTRIBUTES_EVENTS = ''replay.attributes.events''"
definition RAW_DATA :: string where "RAW_DATA = ''replay.server.battlelobby''"

definition decoderMap :: "(string \<times> string) list" where
  "decoderMap =
     [(HEADER, ''decodeReplayHeader''),
      (DETAILS, ''decodeReplayDetails''),
      (INITDATA, ''decodeReplayInitdata''),
      (GAME_EVENTS, ''decodeReplayGameEvents''),
      (MESSAGE_EVENTS, ''decodeReplayMessageEvents''),
      (TRACKER_EVENTS, ''decodeReplayTrackerEvents''),
      (ATTRIBUTES_EVENTS, ''decodeReplayAttributesEvents'')]"

section \<open>Collaborators\<close>

text \<open>
  A decoder set (a \<^verbatim>\<open>heroprotocol/lib/protocolNNN\<close> module), by method name. A plain
  decoder returns a value or throws (a missing method throws too). A generator yields its
  events and then either finishes or throws.
\<close>

record protocol =
  p_decode :: "string \<Rightarrow> jsval \<Rightarrow> error + jsval"
  p_events :: "string \<Rightarrow> jsval \<Rightarrow> jsval list \<times> error option"

text \<open>
  What \<^verbatim>\<open>new MPQArchive(file)\<close> reads: \<^verbatim>\<open>header.userDataHeader.content\<close> (absent when
  the container has no user data header) and \<^verbatim>\<open>readFile\<close>.
\<close>

record container =
  c_content :: "jsval option"
  c_readFile :: "string \<Rightarrow> error + jsval"

text \<open>
  The \<^verbatim>\<open>error\<close> property of an archive: unset, the exception caught at line 80, or the
  message of line 93.
\<close>

datatype errstate = NoError | ErrorObj error | ErrorMsg string

text \<open>
  An \<^verbatim>\<open>MPQArchive\<close> object with the properties this module reads and writes.
  \<^verbatim>\<open>filename\<close> is set by line 56 for an archive opened from a path; a handle built by the
  caller has whatever the constructor gave it.
\<close>

record archive =
  a_filename :: "string option"
  a_content :: "jsval option"
  a_readFile :: "string \<Rightarrow> error + jsval"
  a_data :: "string \<Rightarrow> jsval option"
  a_baseBuild :: jsval
  a_protocol :: "protocol option"
  a_error :: errstate
  a_get :: bool

text \<open>The environment: Node's \<^verbatim>\<open>path\<close> and \<^verbatim>\<open>require\<close>, the file system behind
  \<^verbatim>\<open>new MPQArchive\<close>, \<^verbatim>\<open>Buffer.prototype.toString\<close>, and the bootstrap decoder set.\<close>

record world =
  w_toString :: "string \<Rightarrow> string"
  w_cwd :: string
  w_isAbsolute :: "string \<Rightarrow> bool"
  w_join :: "string \<Rightarrow> string \<Rightarrow> string"
  w_MPQArchive :: "string \<Rightarrow> error + container"
  w_require :: "string \<Rightarrow> protocol option"
  w_protocol29406 :: protocol

text \<open>What the module does to the outside, in order.\<close>

datatype effect =
    OpenContainer string
  | ReadFile nat string
  | Decode string string
  | Log string string

text \<open>
  The heap of archive objects (a reference is an index), the module variable
  \<^verbatim>\<open>lastUsed\<close> (line 43) and the effects so far.
\<close>

record state =
  s_heap :: "archive list"
  s_lastUsed :: "nat option"
  s_trace :: "effect list"

text \<open>The first argument of \<^verbatim>\<open>open\<close>: an \<^verbatim>\<open>MPQArchive\<close> object or any other value.\<close>

datatype file_arg = FHandle nat | FValue jsval

text \<open>What \<^verbatim>\<open>open\<close> returns: an archive object or an \<^verbatim>\<open>Error\<close> value.\<close>

datatype opened = RArchive nat | RError error

definition lookup_archive :: "state \<Rightarrow> nat \<Rightarrow> archive option" where
  "lookup_archive s r = (if r < length (s_heap s) then Some (s_heap s ! r) else None)"

definition update_archive :: "nat \<Rightarrow> (archive \<Rightarrow> archive) \<Rightarrow> state \<Rightarrow> state" where
  "update_archive r f s = s\<lparr>s_heap := (s_heap s)[r := f (s_heap s ! r)]\<rparr>"

definition emit :: "effect \<Rightarrow> state \<Rightarrow> state" where
  "emit e s = s\<lparr>s_trace := s_trace s @ [e]\<rparr>"

definition cache_put :: "nat \<Rightarrow> string \<Rightarrow> jsval \<Rightarrow> state \<Rightarrow> state" where
  "cache_put r name v = update_archive r (\<lambda>a. a\<lparr>a_data := (a_data a)(name \<mapsto> v)\<rparr>)"

definition protocol_module :: "(string \<Rightarrow> string) \<Rightarrow> jsval \<Rightarrow> string" where
  "protocol_module ts build = ''heroprotocol/lib/protocol'' @ to_string ts build"

section \<open>open (lines 45-102)\<close>

text \<open>\<^verbatim>\<open>file !== lastUsed.filename\<close>: an archive object is never equal to a file name.\<close>

definition differs :: "file_arg \<Rightarrow> string option \<Rightarrow> bool" where
  "differs file filename =
     (case file of
        FHandle r \<Rightarrow> True
      | FValue v \<Rightarrow> \<not> strict_eq v (case filename of None \<Rightarrow> Undefined | Some f \<Rightarrow> Str f))"

text \<open>
  The test of line 48, read from the other side: the archive that the \<^verbatim>\<open>else\<close> branch
  (line 98) returns, or \<open>None\<close> when the first branch is taken. An object is always truthy,
  and \<^verbatim>\<open>lastUsed\<close> only ever holds an \<^verbatim>\<open>MPQArchive\<close>.
\<close>

definition cached :: "state \<Rightarrow> file_arg \<Rightarrow> bool \<Rightarrow> nat option" where
  "cached s file noCache =
     (case s_lastUsed s of
        None \<Rightarrow> None
      | Some r \<Rightarrow>
          (case lookup_archive s r of
             None \<Rightarrow> None
           | Some a \<Rightarrow> (if differs file (a_filename a) \<or> noCache then None else Some r)))"

text \<open>Line 55-56: a new archive object for a container read from \<open>file\<close>.\<close>

definition new_archive :: "container \<Rightarrow> string \<Rightarrow> archive" where
  "new_archive c file =
     \<lparr>a_filename = Some file, a_content = c_content c, a_readFile = c_readFile c,
      a_data = Map.empty, a_baseBuild = Undefined, a_protocol = None, a_error = NoError,
      a_get = False\<rparr>"

text \<open>
  Lines 50-66: the archive object for the argument, or the \<^verbatim>\<open>Error\<close> value that line 68
  returns. A reference to nothing on the heap is not an \<^verbatim>\<open>MPQArchive\<close>.
\<close>

definition unsupported :: error where
  "unsupported = Error ''Unsupported parameter: ${file}''"

definition resolve :: "world \<Rightarrow> state \<Rightarrow> file_arg \<Rightarrow> (error + nat) \<times> state" where
  "resolve w s file =
     (case file of
        FValue (Str p) \<Rightarrow>
          (let file' = (if w_isAbsolute w p then p else w_join w (w_cwd w) p);
               s1 = emit (OpenContainer file') s
           in case w_MPQArchive w file' of
                Inl err \<Rightarrow> (Inl err, s1)
              | Inr c \<Rightarrow>
                  (Inr (length (s_heap s1)), s1\<lparr>s_heap := s_heap s1 @ [new_archive c file']\<rparr>))
      | FHandle r \<Rightarrow>
          (if r < length (s_heap s) then (Inr r, s)
           else (Inl unsupported, s))
      | FValue v \<Rightarrow> (Inl unsupported, s))"

text \<open>Line 75: \<^verbatim>\<open>header.m_version.m_baseBuild\<close>.\<close>

definition base_build :: "jsval \<Rightarrow> error + jsval" where
  "base_build header =
     (case get_prop header ''m_version'' of
        Inl e \<Rightarrow> Inl e
      | Inr v \<Rightarrow> get_prop v ''m_baseBuild'')"

text \<open>Line 93: the message stored as the archive's error.\<close>

definition not_found :: "(string \<Rightarrow> string) \<Rightarrow> jsval \<Rightarrow> string" where
  "not_found ts build = ''protocol '' @ to_string ts build @ '' not found''"

text \<open>The exception of \<^verbatim>\<open>require\<close> for a module that does not resolve.\<close>

definition cannot_find :: "string \<Rightarrow> error" where
  "cannot_find name = Error (''Cannot find module '' @ name)"

text \<open>Lines 77-94: resolve the decoder set of \<^verbatim>\<open>archive.baseBuild\<close>.\<close>

definition resolve_protocol :: "world \<Rightarrow> nat \<Rightarrow> jsval \<Rightarrow> state \<Rightarrow> opened outcome \<times> state" where
  "resolve_protocol w r content s =
     (let ts = w_toString w;
          name = protocol_module ts (a_baseBuild (s_heap s ! r));
          s1 = (case w_require w name of
                  Some p \<Rightarrow> update_archive r (\<lambda>a. a\<lparr>a_protocol := Some p\<rparr>) s
                | None \<Rightarrow> update_archive r (\<lambda>a. a\<lparr>a_error := ErrorObj (cannot_find name)\<rparr>) s)
      in case a_protocol (s_heap s1 ! r) of
           Some p \<Rightarrow>
             (let s2 = emit (Decode ''archive.protocol'' ''decodeReplayHeader'') s1
              in case p_decode p ''decodeReplayHeader'' content of
                   Inl e \<Rightarrow> (Raised e, s2)
                 | Inr h \<Rightarrow>
                     (Returned (RArchive r),
                      update_archive r (\<lambda>a. a\<lparr>a_get := True\<rparr>)
                        (cache_put r HEADER (parseStrings ts h) s2)))
         | None \<Rightarrow>
             (Returned (RArchive r),
              update_archive r
                (\<lambda>a. a\<lparr>a_error := ErrorMsg (not_found ts (a_baseBuild a))\<rparr>) s1))"

text \<open>Lines 69-75: make the archive the cached one, reset its data, decode the header
  with the bootstrap decoder set.\<close>

definition no_user_data :: error where
  "no_user_data = Error ''TypeError: Cannot read properties of undefined''"

definition load_header :: "world \<Rightarrow> nat \<Rightarrow> state \<Rightarrow> opened outcome \<times> state" where
  "load_header w r s =
     (let s1 = update_archive r (\<lambda>a. a\<lparr>a_data := Map.empty\<rparr>) (s\<lparr>s_lastUsed := Some r\<rparr>)
      in case a_content (s_heap s1 ! r) of
           None \<Rightarrow> (Raised no_user_data, s1)
         | Some content \<Rightarrow>
             (let s2 = emit (Decode ''protocol29406'' ''decodeReplayHeader'') s1
              in case p_decode (w_protocol29406 w) ''decodeReplayHeader'' content of
                   Inl e \<Rightarrow> (Raised e, s2)
                 | Inr h \<Rightarrow>
                     (let header = parseStrings (w_toString w) h;
                          s3 = cache_put r HEADER header s2
                      in case base_build header of
                           Inl e \<Rightarrow> (Raised e, s3)
                         | Inr b \<Rightarrow>
                             resolve_protocol w r content
                               (update_archive r (\<lambda>a. a\<lparr>a_baseBuild := b\<rparr>) s3))))"

definition "open" :: "world \<Rightarrow> state \<Rightarrow> file_arg \<Rightarrow> bool \<Rightarrow> opened outcome \<times> state" where
  "open w s file noCache =
     (case cached s file noCache of
        None \<Rightarrow>
          (case resolve w s file of
             (Inl err, s1) \<Rightarrow> (Returned (RError err), s1)
           | (Inr r, s1) \<Rightarrow> load_header w r s1)
      | Some r \<Rightarrow> (Returned (RArchive r), s))"

section \<open>get (lines 105-158)\<close>

text \<open>\<^verbatim>\<open>archive.error\<close> as a condition, and as the string appended to the diagnostic.\<close>

fun error_truthy :: "errstate \<Rightarrow> bool" where
  "error_truthy NoError = False"
| "error_truthy (ErrorObj e) = True"
| "error_truthy (ErrorMsg m) = (m \<noteq> [])"

fun error_string :: "errstate \<Rightarrow> string" where
  "error_string NoError = ''undefined''"
| "error_string (ErrorObj (Error m)) = ''Error: '' @ m"
| "error_string (ErrorMsg m) = m"

text \<open>Line 110: \<^verbatim>\<open>logger.log('info', 'Heroprotocol: ' + archive.error)\<close>.\<close>

definition diagnostic :: "string \<Rightarrow> effect" where
  "diagnostic err = Log ''info'' (''Heroprotocol: '' @ err)"

text \<open>\<^verbatim>\<open>decoderMap[archiveFile]\<close>; an absent entry reads as the property name \<^verbatim>\<open>undefined\<close>.\<close>

definition method_of :: "string \<Rightarrow> string" where
  "method_of name = (case map_of decoderMap name of Some m \<Rightarrow> m | None \<Rightarrow> ''undefined'')"

text \<open>
  Line 114: the cached value that is returned when no keys are given. \<^verbatim>\<open>archive.data\<close> is
  read as the map of its own properties; the properties every object inherits
  (\<^verbatim>\<open>constructor\<close>, \<^verbatim>\<open>toString\<close>, ...) are not modelled, here and in \<open>get_prop\<close>, so \<open>get\<close>
  describes the source for section names and keys that are none of these.
\<close>

definition cached_value :: "archive \<Rightarrow> string \<Rightarrow> 'k option \<Rightarrow> jsval option" where
  "cached_value a name keys =
     (case a_data a name of
        None \<Rightarrow> None
      | Some v \<Rightarrow> (if truthy v \<and> keys = None then Some v else None))"

text \<open>Lines 134-138: the loop over the keys of criterion \<open>crit\<close>, for one event.\<close>

fun check_keys ::
  "(string \<Rightarrow> string) \<Rightarrow> jsval \<Rightarrow> (string \<times> jsval) list \<Rightarrow> string list \<Rightarrow> jsval list
     \<Rightarrow> error + jsval list" where
  "check_keys ts event crit [] bucket = Inr bucket"
| "check_keys ts event crit (key # rest) bucket =
     (case get_prop (parseStrings ts event) key of
        Inl e \<Rightarrow> Inl e
      | Inr v \<Rightarrow>
          check_keys ts event crit rest
            (if strict_eq v (field crit key) then bucket @ [parseStrings ts event] else bucket))"

text \<open>Lines 133-139: the loop over the criteria, for one event; \<open>data\<close> are the buckets.\<close>

fun check_event ::
  "(string \<Rightarrow> string) \<Rightarrow> jsval \<Rightarrow> (string \<times> jsval) list list \<Rightarrow> jsval list list
     \<Rightarrow> error + jsval list list" where
  "check_event ts event (crit # crits) (bucket # data) =
     (case check_keys ts event crit (map fst crit) bucket of
        Inl e \<Rightarrow> Inl e
      | Inr b \<Rightarrow>
          (case check_event ts event crits data of
             Inl e \<Rightarrow> Inl e
           | Inr d \<Rightarrow> Inr (b # d)))"
| "check_event ts event crits data = Inr data"

text \<open>Lines 130-141: the loop over the events.\<close>

fun filter_events ::
  "(string \<Rightarrow> string) \<Rightarrow> jsval list \<Rightarrow> (string \<times> jsval) list list \<Rightarrow> jsval list list
     \<Rightarrow> error + jsval list list" where
  "filter_events ts [] keys data = Inr data"
| "filter_events ts (event # events) keys data =
     (case check_event ts event keys data of
        Inl e \<Rightarrow> Inl e
      | Inr d \<Rightarrow> filter_events ts events keys d)"

text \<open>Lines 119-123: details, initdata, attributes.\<close>

definition get_single :: "world \<Rightarrow> nat \<Rightarrow> protocol \<Rightarrow> string \<Rightarrow> state \<Rightarrow> jsval outcome \<times> state" where
  "get_single w r p name s =
     (let s1 = emit (ReadFile r name) s
      in case a_readFile (s_heap s ! r) name of
           Inl e \<Rightarrow> (Raised e, s1)
         | Inr bytes \<Rightarrow>
             (let s2 = emit (Decode ''archive.protocol'' (method_of name)) s1
              in case p_decode p (method_of name) bytes of
                   Inl e \<Rightarrow> (Raised e, s2)
                 | Inr v \<Rightarrow>
                     (Returned (parseStrings (w_toString w) v),
                      cache_put r name (parseStrings (w_toString w) v) s2)))"

text \<open>Lines 126-141: the event streams, with keys. Nothing is stored on the archive.\<close>

definition get_filtered ::
  "world \<Rightarrow> nat \<Rightarrow> protocol \<Rightarrow> string \<Rightarrow> (string \<times> jsval) list list \<Rightarrow> state
     \<Rightarrow> jsval outcome \<times> state" where
  "get_filtered w r p name keys s =
     (let s1 = emit (ReadFile r name) s
      in case a_readFile (s_heap s ! r) name of
           Inl e \<Rightarrow> (Raised e, s1)
         | Inr bytes \<Rightarrow>
             (let s2 = emit (Decode ''archive.protocol'' (method_of name)) s1
              in case p_events p (method_of name) bytes of
                   (events, thrown) \<Rightarrow>
                     (case filter_events (w_toString w) events keys
                             (replicate (length keys) []) of
                        Inl e \<Rightarrow> (Raised e, s2)
                      | Inr data \<Rightarrow>
                          (case thrown of
                             Some e \<Rightarrow> (Raised e, s2)
                           | None \<Rightarrow> (Returned (Arr (map Arr data)), s2)))))"

text \<open>
  Lines 143-148: the event streams, without keys. The array is stored on the archive
  before the loop fills it, so it holds the events pushed so far when the generator
  throws.
\<close>

definition get_events :: "world \<Rightarrow> nat \<Rightarrow> protocol \<Rightarrow> string \<Rightarrow> state \<Rightarrow> jsval outcome \<times> state" where
  "get_events w r p name s =
     (let s1 = emit (ReadFile r name) (cache_put r name (Arr []) s)
      in case a_readFile (s_heap s ! r) name of
           Inl e \<Rightarrow> (Raised e, s1)
         | Inr bytes \<Rightarrow>
             (let s2 = emit (Decode ''archive.protocol'' (method_of name)) s1
              in case p_events p (method_of name) bytes of
                   (events, thrown) \<Rightarrow>
                     (let data = Arr (map (parseStrings (w_toString w)) events);
                          s3 = cache_put r name data s2
                      in case thrown of
                           Some e \<Rightarrow> (Raised e, s3)
                         | None \<Rightarrow> (Returned data, s3))))"

text \<open>Lines 150-152: the raw lobby data.\<close>

definition get_raw :: "world \<Rightarrow> nat \<Rightarrow> string \<Rightarrow> state \<Rightarrow> jsval outcome \<times> state" where
  "get_raw w r name s =
     (let s1 = emit (ReadFile r name) s
      in case a_readFile (s_heap s ! r) name of
           Inl e \<Rightarrow> (Raised e, s1)
         | Inr v \<Rightarrow>
             (Returned (parseStrings (w_toString w) v),
              cache_put r name (parseStrings (w_toString w) v) s1))"

definition get ::
  "world \<Rightarrow> state \<Rightarrow> string \<Rightarrow> file_arg \<Rightarrow> (string \<times> jsval) list list option
     \<Rightarrow> jsval outcome \<times> state" where
  "get w s archiveFile arch keys =
     (case open w s arch False of
        (Raised e, s1) \<Rightarrow> (Raised e, s1)
      | (Returned (RError err), s1) \<Rightarrow>
          (Returned Undefined, emit (diagnostic ''undefined'') s1)
      | (Returned (RArchive r), s1) \<Rightarrow>
          (let a = s_heap s1 ! r
           in if error_truthy (a_error a)
              then (Returned Undefined, emit (diagnostic (error_string (a_error a))) s1)
              else
                (case cached_value a archiveFile keys of
                   Some v \<Rightarrow> (Returned v, s1)
                 | None \<Rightarrow>
                     (case a_protocol a of
                        None \<Rightarrow> (Returned Undefined, s1)
                      | Some p \<Rightarrow>
                          (if archiveFile \<in> set [DETAILS, INITDATA, ATTRIBUTES_EVENTS]
                           then get_single w r p archiveFile s1
                           else if archiveFile \<in> set [GAME_EVENTS, MESSAGE_EVENTS, TRACKER_EVENTS]
                           then (case keys of
                                   Some ks \<Rightarrow> get_filtered w r p archiveFile ks s1
                                 | None \<Rightarrow> get_events w r p archiveFile s1)
                           else if archiveFile = RAW_DATA then get_raw w r archiveFile s1
                           else (Returned Undefined, s1))))))"

section \<open>parseFile (lines 178-197)\<close>

definition parseFile :: "world \<Rightarrow> string \<Rightarrow> jsval \<Rightarrow> jsval \<Rightarrow> jsval outcome" where
  "parseFile w filename buffer build =
     (case w_require w (protocol_module (w_toString w) build) of
        None \<Rightarrow> Returned Undefined
      | Some p \<Rightarrow>
          (if filename \<in> set [DETAILS, INITDATA, ATTRIBUTES_EVENTS]
           then (case p_decode p (method_of filename) buffer of
                   Inl e \<Rightarrow> Raised e
                 | Inr v \<Rightarrow> Returned (parseStrings (w_toString w) v))
           else if filename \<in> set [GAME_EVENTS, MESSAGE_EVENTS, TRACKER_EVENTS]
           then (case p_events p (method_of filename) buffer of
                   (events, Some e) \<Rightarrow> Raised e
                 | (events, None) \<Rightarrow> Returned (Arr (map (parseStrings (w_toString w)) events)))
           else Returned Undefined))"

section \<open>Archives whose version has no decoder set\<close>

text \<open>
  Archive \<open>r\<close> carries no decoder set, its header decodes with the bootstrap decoder set
  to the version \<open>b\<close>, and \<^verbatim>\<open>require\<close> finds no decoder set for \<open>b\<close>.
\<close>

definition unresolved :: "world \<Rightarrow> state \<Rightarrow> nat \<Rightarrow> jsval \<Rightarrow> bool" where
  "unresolved w s r b =
     (case lookup_archive s r of
        None \<Rightarrow> False
      | Some a \<Rightarrow>
          a_protocol a = None \<and>
          (case a_content a of
             None \<Rightarrow> False
           | Some content \<Rightarrow>
               (case p_decode (w_protocol29406 w) ''decodeReplayHeader'' content of
                  Inl e \<Rightarrow> False
                | Inr h \<Rightarrow>
                    base_build (parseStrings (w_toString w) h) = Inr b \<and>
                    w_require w (protocol_module (w_toString w) b) = None)))"

section \<open>An example environment\<close>

text \<open>
  Two replays under \<^verbatim>\<open>/home/u\<close>: \<^verbatim>\<open>a.StormReplay\<close> of build 5, which has a decoder set,
  and \<^verbatim>\<open>b.StormReplay\<close> of build 47479, which has none. The game events of build 5 are two
  events of two fields each.
\<close>

definition header5 :: jsval where
  "header5 =
     Obj [(''m_signature'', Buf ''replay''), (''m_version'', Obj [(''m_baseBuild'', Num 5)])]"

definition header47479 :: jsval where
  "header47479 =
     Obj [(''m_signature'', Buf ''replay''), (''m_version'', Obj [(''m_baseBuild'', Num 47479)])]"

definition event1 :: jsval where
  "event1 = Obj [(''m_playerId'', Num 1), (''m_unitTag'', Num 7)]"

definition event2 :: jsval where
  "event2 = Obj [(''m_playerId'', Num 2), (''m_unitTag'', Num 7)]"

definition details5 :: jsval where
  "details5 = Obj [(''m_title'', Buf ''Cursed Hollow'')]"

definition protocol0 :: protocol where
  "protocol0 =
     \<lparr>p_decode = (\<lambda>m b. if m = ''decodeReplayHeader''
                          then (if b = Buf ''build5'' then Inr header5
                                else if b = Buf ''build47479'' then Inr header47479
                                else Inl (Error ''corrupt header''))
                          else Inl (Error ''not a function'')),
      p_events = (\<lambda>m b. ([], Some (Error ''not a function'')))\<rparr>"

definition protocol5 :: protocol where
  "protocol5 =
     \<lparr>p_decode = (\<lambda>m b. if m = ''decodeReplayHeader'' then Inr header5 else Inr details5),
      p_events = (\<lambda>m b. ([event1, event2], None))\<rparr>"

definition container5 :: container where
  "container5 = \<lparr>c_content = Some (Buf ''build5''), c_readFile = (\<lambda>name. Inr (Buf name))\<rparr>"

definition container47479 :: container where
  "container47479 = \<lparr>c_content = Some (Buf ''build47479''), c_readFile = (\<lambda>name. Inr (Buf name))\<rparr>"

definition world0 :: world where
  "world0 =
     \<lparr>w_toString = (\<lambda>b. b),
      w_cwd = ''/home/u'',
      w_isAbsolute = (\<lambda>p. case p of [] \<Rightarrow> False | c # cs \<Rightarrow> c = CHR ''/''),
      w_join = (\<lambda>a b. a @ ''/'' @ b),
      w_MPQArchive = (\<lambda>f. if f = ''/home/u/a.StormReplay'' then Inr container5
                           else if f = ''/home/u/b.StormReplay'' then Inr container47479
                           else Inl (Error ''ENOENT'')),
      w_require = (\<lambda>m. if m = ''heroprotocol/lib/protocol5'' then Some protocol5 else None),
      w_protocol29406 = protocol0\<rparr>"

text \<open>Nothing opened yet.\<close>

definition state0 :: state where
  "state0 = \<lparr>s_heap = [], s_lastUsed = None, s_trace = []\<rparr>"

text \<open>The replay of build 5, by absolute and by relative path.\<close>

definition replay_a :: file_arg where
  "replay_a = FValue (Str ''/home/u/a.StormReplay'')"

definition replay_a_relative :: file_arg where
  "replay_a_relative = FValue (Str ''a.StormReplay'')"

definition replay_b :: file_arg where
  "replay_b = FValue (Str ''/home/u/b.StormReplay'')"

text \<open>The state after \<^verbatim>\<open>open('/home/u/a.StormReplay')\<close>: the archive is object 0.\<close>

definition state_a :: state where
  "state_a = snd (open world0 state0 replay_a False)"

text \<open>The state after \<^verbatim>\<open>open('/home/u/b.StormReplay')\<close>.\<close>

definition state_b :: state where
  "state_b = snd (open world0 state0 replay_b False)"

text \<open>
  A handle the caller built from a buffer, so without a \<^verbatim>\<open>filename\<close>, and the state after
  \<^verbatim>\<open>open(handle)\<close>.
\<close>

definition buffer_handle :: archive where
  "buffer_handle =
     \<lparr>a_filename = None, a_content = Some (Buf ''build5''), a_readFile = (\<lambda>name. Inr (Buf name)),
      a_data = Map.empty, a_baseBuild = Undefined, a_protocol = None, a_error = NoError,
      a_get = False\<rparr>"

definition state_h :: state where
  "state_h =
     snd (open world0 \<lparr>s_heap = [buffer_handle], s_lastUsed = None, s_trace = []\<rparr> (FHandle 0) False)"

text \<open>The states after \<^verbatim>\<open>get\<close> on archive object 0, for the details and for the game events.\<close>

definition state_d :: state where
  "state_d = snd (get world0 state_a DETAILS (FHandle 0) None)"

definition state_e :: state where
  "state_e = snd (get world0 state_a GAME_EVENTS (FHandle 0) None)"

text \<open>One criterion naming two fields.\<close>

definition two_fields :: "(string \<times> jsval) list list" where
  "two_fields = [[(''m_playerId'', Num 1), (''m_unitTag'', Num 7)]]"

section \<open>Evaluation\<close>

lemmas model_defs =
  open_def cached_def differs_def resolve_def load_header_def resolve_protocol_def
  base_build_def new_archive_def lookup_archive_def update_archive_def emit_def cache_put_def
  protocol_module_def get_def get_single_def get_filtered_def get_events_def get_raw_def
  cached_value_def method_of_def decoderMap_def parseFile_def
  HEADER_def DETAILS_def INITDATA_def GAME_EVENTS_def MESSAGE_EVENTS_def TRACKER_EVENTS_def
  ATTRIBUTES_EVENTS_def RAW_DATA_def string_of_int_def Let_def

lemmas example_defs =
  header5_def header47479_def event1_def event2_def details5_def protocol0_def protocol5_def
  container5_def container47479_def world0_def state0_def replay_a_def replay_a_relative_def
  replay_b_def state_a_def state_b_def buffer_handle_def state_h_def state_d_def state_e_def
  two_fields_def

section \<open>The normalizer\<close>

lemma parseStrings_again: "parseStrings ts (parseStrings ts x) = parseStrings ts x"
proof (induction ts x rule: parseStrings.induct)
  case (5 ts kvs)
  then show ?case by (auto simp: case_prod_unfold)
qed simp_all

text \<open>
  Claim C4. \<^verbatim>\<open>parseStrings\<close> is idempotent. On an array it returns an array of the same
  length whose elements are the normalized elements in the same order; on an object it
  returns an object with the same keys in the same order and the normalized values;
  numbers, booleans, strings, \<^verbatim>\<open>null\<close> and \<^verbatim>\<open>undefined\<close> are returned unchanged; a buffer
  becomes the string \<^verbatim>\<open>toString\<close> gives.
\<close>

theorem parseStrings_normalizes:
  "parseStrings ts (parseStrings ts x) = parseStrings ts x
   \<and> (\<exists>ys. parseStrings ts (Arr xs) = Arr ys \<and> length ys = length xs
          \<and> ys = map (parseStrings ts) xs)
   \<and> (\<exists>kvs'. parseStrings ts (Obj kvs) = Obj kvs' \<and> map fst kvs' = map fst kvs
          \<and> map snd kvs' = map (parseStrings ts) (map snd kvs))
   \<and> parseStrings ts (Num n) = Num n
   \<and> parseStrings ts (Bool b) = Bool b
   \<and> parseStrings ts (Str t) = Str t
   \<and> parseStrings ts Null = Null
   \<and> parseStrings ts Undefined = Undefined
   \<and> parseStrings ts (Buf bytes) = Str (ts bytes)"
  by (simp add: parseStrings_again case_prod_unfold comp_def)

section \<open>Decimal strings\<close>

lemma digit_value: "d < 10 \<Longrightarrow> of_char (''0123456789'' ! d) - 48 = (d::nat)"
proof -
  assume "d < 10"
  then have "d \<in> {0, 1, 2, 3, 4, 5, 6, 7, 8, 9}" by auto
  then show ?thesis by auto
qed

lemma decimal_value_snoc: "decimal_value (s @ [c]) = 10 * decimal_value s + (of_char c - 48)"
  by (simp add: decimal_value_def)

text \<open>\<open>string_of_nat\<close> writes a number in decimal: the digits denote the number.\<close>

lemma string_of_nat_decimal: "decimal_value (string_of_nat n) = n"
proof (induction n rule: string_of_nat.induct)
  case (1 n)
  show ?case
  proof (cases "n < 10")
    case True
    then show ?thesis
      by (subst string_of_nat.simps) (simp add: decimal_value_def digit_value)
  next
    case False
    with 1 have "decimal_value (string_of_nat (n div 10)) = n div 10" by simp
    with False show ?thesis
      by (subst string_of_nat.simps) (simp add: decimal_value_snoc digit_value)
  qed
qed

lemma string_of_nat_digits: "set (string_of_nat n) \<subseteq> set ''0123456789'' \<and> string_of_nat n \<noteq> []"
proof (induction n rule: string_of_nat.induct)
  case (1 n)
  have d: "''0123456789'' ! k \<in> set ''0123456789''" if "k < 10" for k
    using that by (intro nth_mem) simp
  show ?case
  proof (cases "n < 10")
    case True
    with d[of n] show ?thesis by (subst (1 2) string_of_nat.simps) simp
  next
    case False
    with 1 d[of "n mod 10"] show ?thesis by (subst (1 2) string_of_nat.simps) simp
  qed
qed

lemma string_of_nat_examples:
  "string_of_nat 0 = ''0''" "string_of_nat 5 = ''5''" "string_of_nat 29406 = ''29406''"
  "string_of_nat 47479 = ''47479''"
  by simp_all

section \<open>State bookkeeping\<close>

lemma emit_fields [simp]:
  "s_heap (emit e s) = s_heap s"
  "s_lastUsed (emit e s) = s_lastUsed s"
  "s_trace (emit e s) = s_trace s @ [e]"
  by (simp_all add: emit_def)

lemma update_archive_fields [simp]:
  "s_heap (update_archive r f s) = (s_heap s)[r := f (s_heap s ! r)]"
  "s_lastUsed (update_archive r f s) = s_lastUsed s"
  "s_trace (update_archive r f s) = s_trace s"
  by (simp_all add: update_archive_def)

lemma cache_put_fields [simp]:
  "s_heap (cache_put r name v s) =
     (s_heap s)[r := (s_heap s ! r)\<lparr>a_data := (a_data (s_heap s ! r))(name \<mapsto> v)\<rparr>]"
  "s_lastUsed (cache_put r name v s) = s_lastUsed s"
  "s_trace (cache_put r name v s) = s_trace s"
  by (simp_all add: cache_put_def)

section \<open>parseFile\<close>

text \<open>
  Claim C7. When \<^verbatim>\<open>require\<close> resolves no decoder set for the build, \<^verbatim>\<open>parseFile\<close> returns
  \<^verbatim>\<open>undefined\<close>, for every section name and buffer; it does not raise.
\<close>

theorem parseFile_unknown_version:
  "w_require w (protocol_module (w_toString w) build) = None
   \<Longrightarrow> parseFile w filename buffer build = Returned Undefined"
  by (simp add: parseFile_def)

theorem parseFile_unknown_version_witness:
  "w_require world0 (protocol_module (w_toString world0) (Str ''UNKNOWN_VERSION'')) = None
   \<and> parseFile world0 DETAILS (Buf ''bytes'') (Str ''UNKNOWN_VERSION'') = Returned Undefined"
proof -
  have h: "w_require world0 (protocol_module (w_toString world0) (Str ''UNKNOWN_VERSION'')) = None"
    by (simp add: world0_def protocol_module_def)
  from h parseFile_unknown_version [OF h, of DETAILS "Buf ''bytes''"] show ?thesis by simp
qed

text \<open>
  Claim C10. When the decoder set resolves, \<^verbatim>\<open>parseFile\<close> returns \<^verbatim>\<open>undefined\<close> for the
  header name, for the raw lobby data name, and for every name that is none of details,
  initdata, attributes events, game events, message events and tracker events.
\<close>

theorem parseFile_other_sections:
  assumes "w_require w (protocol_module (w_toString w) build) = Some p"
  shows "parseFile w HEADER buffer build = Returned Undefined
     \<and> parseFile w RAW_DATA buffer build = Returned Undefined
     \<and> (filename \<notin> set [DETAILS, INITDATA, ATTRIBUTES_EVENTS,
                          GAME_EVENTS, MESSAGE_EVENTS, TRACKER_EVENTS]
          \<longrightarrow> parseFile w filename buffer build = Returned Undefined)"
  using assms
  by (simp add: parseFile_def HEADER_def DETAILS_def INITDATA_def GAME_EVENTS_def
      MESSAGE_EVENTS_def TRACKER_EVENTS_def ATTRIBUTES_EVENTS_def RAW_DATA_def)

theorem parseFile_other_sections_witness:
  "w_require world0 (protocol_module (w_toString world0) (Num 5)) = Some protocol5
   \<and> parseFile world0 HEADER (Buf ''bytes'') (Num 5) = Returned Undefined
   \<and> parseFile world0 RAW_DATA (Buf ''bytes'') (Num 5) = Returned Undefined
   \<and> parseFile world0 ''replay.load.info'' (Buf ''bytes'') (Num 5) = Returned Undefined
   \<and> parseFile world0 DETAILS (Buf ''bytes'') (Num 5)
       = Returned (Obj [(''m_title'', Str ''Cursed Hollow'')])"
proof -
  have h: "w_require world0 (protocol_module (w_toString world0) (Num 5)) = Some protocol5"
    by (simp add: world0_def protocol_module_def string_of_int_def)
  have d: "parseFile world0 DETAILS (Buf ''bytes'') (Num 5)
       = Returned (Obj [(''m_title'', Str ''Cursed Hollow'')])"
    by (simp add: model_defs example_defs)
  from h d parseFile_other_sections [OF h, of "Buf ''bytes''" "''replay.load.info''"]
  show ?thesis
    by (simp add: HEADER_def DETAILS_def INITDATA_def GAME_EVENTS_def
      MESSAGE_EVENTS_def TRACKER_EVENTS_def ATTRIBUTES_EVENTS_def RAW_DATA_def)
qed

section \<open>open\<close>

lemma resolve_error:
  "resolve w s file = (Inl err, s1) \<Longrightarrow> s_heap s1 = s_heap s \<and> s_lastUsed s1 = s_lastUsed s"
  by (auto simp: resolve_def Let_def split: file_arg.splits jsval.splits sum.splits if_splits)

lemma resolve_handle:
  "resolve w s file = (Inr r, s1) \<Longrightarrow> r < length (s_heap s1)"
  by (auto simp: resolve_def Let_def split: file_arg.splits jsval.splits sum.splits if_splits)

lemma load_header_no_error: "load_header w r s \<noteq> (Returned (RError e), s')"
  by (auto simp: load_header_def resolve_protocol_def Let_def split: option.splits sum.splits)

lemma open_error_cases:
  assumes "open w s file noCache = (Returned (RError e), s')"
  shows "cached s file noCache = None \<and> resolve w s file = (Inl e, s')"
  using assms load_header_no_error
  by (auto simp: open_def split: option.splits prod.splits sum.splits)

lemma cached_same_filename:
  "s_lastUsed s = Some r \<Longrightarrow> lookup_archive s r = Some a \<Longrightarrow> a_filename a = Some f
   \<Longrightarrow> cached s (FValue (Str f)) False = Some r"
  by (simp add: cached_def differs_def)

lemma open_handle_reopens:
  "r < length (s_heap s) \<Longrightarrow> open w s (FHandle r) noCache = load_header w r s"
  by (simp add: open_def cached_def differs_def resolve_def split: option.splits)

text \<open>The states of the example, evaluated.\<close>

lemma state_a_fields:
  "s_lastUsed state_a = Some 0"
  "length (s_heap state_a) = 1"
  "a_filename (s_heap state_a ! 0) = Some ''/home/u/a.StormReplay''"
  "s_trace state_a =
     [OpenContainer ''/home/u/a.StormReplay'', Decode ''protocol29406'' ''decodeReplayHeader'',
      Decode ''archive.protocol'' ''decodeReplayHeader'']"
  by (simp_all add: model_defs example_defs)

text \<open>
  Claim C9. When \<^verbatim>\<open>open\<close> returns an \<^verbatim>\<open>Error\<close> value, \<^verbatim>\<open>lastUsed\<close> and every archive
  object are as before the call, and opening the file name of the cached archive without
  \<^verbatim>\<open>noCache\<close> returns that archive and changes nothing.
\<close>

theorem open_error_keeps_cache:
  assumes "open w s file noCache = (Returned (RError e), s')"
  shows "s_lastUsed s' = s_lastUsed s \<and> s_heap s' = s_heap s
     \<and> (\<forall>r a f. s_lastUsed s = Some r \<and> lookup_archive s r = Some a \<and> a_filename a = Some f
            \<longrightarrow> open w s' (FValue (Str f)) False = (Returned (RArchive r), s'))"
proof -
  from assms have res: "resolve w s file = (Inl e, s')"
    by (simp add: open_error_cases)
  then have same: "s_heap s' = s_heap s" "s_lastUsed s' = s_lastUsed s"
    by (simp_all add: resolve_error)
  have "open w s' (FValue (Str f)) False = (Returned (RArchive r), s')"
    if "s_lastUsed s = Some r" "lookup_archive s r = Some a" "a_filename a = Some f" for r a f
  proof -
    from that same have "cached s' (FValue (Str f)) False = Some r"
      by (intro cached_same_filename[where a = a]) (auto simp: lookup_archive_def split: if_splits)
    then show ?thesis by (simp add: open_def)
  qed
  with same show ?thesis by blast
qed

lemma open_missing:
  "open world0 state_a (FValue (Str ''/home/u/missing'')) False
     = (Returned (RError (Error ''ENOENT'')), emit (OpenContainer ''/home/u/missing'') state_a)"
  using state_a_fields
  by (simp add: open_def cached_def differs_def lookup_archive_def resolve_def world0_def)

theorem open_error_keeps_cache_witness:
  "open world0 state_a (FValue (Str ''/home/u/missing'')) False
     = (Returned (RError (Error ''ENOENT'')), emit (OpenContainer ''/home/u/missing'') state_a)
   \<and> s_lastUsed (emit (OpenContainer ''/home/u/missing'') state_a) = Some 0
   \<and> open world0 (emit (OpenContainer ''/home/u/missing'') state_a) replay_a False
       = (Returned (RArchive 0), emit (OpenContainer ''/home/u/missing'') state_a)"
  using open_error_keeps_cache [OF open_missing] open_missing state_a_fields
  by (simp add: lookup_archive_def replay_a_def)

text \<open>
  When line 48 sends the call to the first branch (no cached archive whose file name is
  strictly equal to the argument, or \<^verbatim>\<open>noCache\<close>), an argument that is neither a string
  nor an archive object, and a path whose container fails to open, make \<^verbatim>\<open>open\<close> return an
  \<^verbatim>\<open>Error\<close> value; \<^verbatim>\<open>lastUsed\<close> and the archive objects are unchanged.
\<close>

lemma open_failure_returns_error:
  assumes "cached s file noCache = None"
    and "(file = FValue v \<and> (\<forall>p. v \<noteq> Str p))
       \<or> (file = FValue (Str p)
          \<and> w_MPQArchive w (if w_isAbsolute w p then p else w_join w (w_cwd w) p) = Inl e)"
  shows "\<exists>err s'. open w s file noCache = (Returned (RError err), s')
           \<and> s_lastUsed s' = s_lastUsed s \<and> s_heap s' = s_heap s"
  using assms
  by (auto simp: open_def resolve_def Let_def split: jsval.splits)

lemma open_failure_returns_error_instance:
  "cached state_a (FValue (Num 3)) False = None
   \<and> cached state_a (FValue (Str ''missing'')) False = None
   \<and> w_MPQArchive world0 (w_join world0 (w_cwd world0) ''missing'') = Inl (Error ''ENOENT'')
   \<and> (\<exists>err s'. open world0 state_a (FValue (Num 3)) False = (Returned (RError err), s')
         \<and> s_lastUsed s' = s_lastUsed state_a \<and> s_heap s' = s_heap state_a)
   \<and> (\<exists>err s'. open world0 state_a (FValue (Str ''missing'')) False = (Returned (RError err), s')
         \<and> s_lastUsed s' = s_lastUsed state_a \<and> s_heap s' = s_heap state_a)"
proof -
  have c1: "cached state_a (FValue (Num 3)) False = None"
    and c2: "cached state_a (FValue (Str ''missing'')) False = None"
    using state_a_fields by (simp_all add: cached_def differs_def lookup_archive_def)
  have m: "w_MPQArchive world0 (w_join world0 (w_cwd world0) ''missing'') = Inl (Error ''ENOENT'')"
    "\<not> w_isAbsolute world0 ''missing''"
    by (simp_all add: world0_def)
  from c1 c2 m
    open_failure_returns_error [of state_a "FValue (Num 3)" False "Num 3" "''x''" world0 "Error ''x''"]
    open_failure_returns_error [of state_a "FValue (Str ''missing'')" False "Num 3" "''missing''" world0 "Error ''ENOENT''"]
  show ?thesis by simp
qed

text \<open>When line 48 sends the call to the second branch, \<^verbatim>\<open>open\<close> returns the cached archive
  whatever the argument is, and does nothing else.\<close>

lemma open_cached:
  "cached s file noCache = Some r \<Longrightarrow> open w s file noCache = (Returned (RArchive r), s)"
  by (simp add: open_def)

lemma state_h_fields:
  "s_lastUsed state_h = Some 0"
  "length (s_heap state_h) = 1"
  "a_filename (s_heap state_h ! 0) = None"
  by (simp_all add: model_defs example_defs)

lemma state_h_cached:
  "cached state_h (FValue Undefined) False = Some 0"
  "cached state_h (FValue Null) False = None"
  "cached state_h (FValue (Num 3)) False = None"
  "cached state_h (FValue (Obj [])) False = None"
  using state_h_fields by (simp_all add: cached_def differs_def lookup_archive_def)

text \<open>
  Claim C8, evaluated. The cached archive is a handle that has no \<^verbatim>\<open>filename\<close>. Then
  \<^verbatim>\<open>open(undefined)\<close> passes the test of line 48 (\<^verbatim>\<open>undefined !== undefined\<close> is false): it
  returns the cached archive, not an \<^verbatim>\<open>Error\<close>, and changes nothing. In the same state
  \<^verbatim>\<open>open(null)\<close>, \<^verbatim>\<open>open(3)\<close> and \<^verbatim>\<open>open({})\<close> return the \<^verbatim>\<open>Error\<close> of line 65, and leave
  the state as it is.
\<close>

theorem open_undefined_returns_cached:
  "s_lastUsed state_h = Some 0
   \<and> a_filename (s_heap state_h ! 0) = None
   \<and> open world0 state_h (FValue Undefined) False = (Returned (RArchive 0), state_h)
   \<and> open world0 state_h (FValue Null) False = (Returned (RError unsupported), state_h)
   \<and> open world0 state_h (FValue (Num 3)) False = (Returned (RError unsupported), state_h)
   \<and> open world0 state_h (FValue (Obj [])) False = (Returned (RError unsupported), state_h)"
  using state_h_fields state_h_cached
  by (simp add: open_def resolve_def)


section \<open>get on an archive whose version has no decoder set\<close>

lemma unresolved_heap:
  "s_heap s' = s_heap s \<Longrightarrow> unresolved w s' r b = unresolved w s r b"
  by (simp add: unresolved_def lookup_archive_def)

lemma unresolvedE:
  assumes "unresolved w s r b"
  obtains content h where "r < length (s_heap s)" "a_protocol (s_heap s ! r) = None"
    "a_content (s_heap s ! r) = Some content"
    "p_decode (w_protocol29406 w) ''decodeReplayHeader'' content = Inr h"
    "base_build (parseStrings (w_toString w) h) = Inr b"
    "w_require w (protocol_module (w_toString w) b) = None"
  using assms
  by (auto simp: unresolved_def lookup_archive_def split: option.splits sum.splits if_splits)

lemma resolve_protocol_cases:
  assumes "resolve_protocol w r content s = (Returned (RArchive r'), s1)"
    and "r < length (s_heap s)" and "a_protocol (s_heap s1 ! r) = None"
  shows "r' = r \<and> a_protocol (s_heap s ! r) = None
     \<and> w_require w (protocol_module (w_toString w) (a_baseBuild (s_heap s ! r))) = None
     \<and> s_heap s1 =
         (s_heap s)[r := (s_heap s ! r)
            \<lparr>a_error := ErrorMsg (not_found (w_toString w) (a_baseBuild (s_heap s ! r)))\<rparr>]"
proof (cases "w_require w (protocol_module (w_toString w) (a_baseBuild (s_heap s ! r)))")
  case None
  show ?thesis
  proof (cases "a_protocol (s_heap s ! r)")
    case None
    with \<open>w_require w _ = None\<close> assms show ?thesis
      by (auto simp: resolve_protocol_def Let_def)
  next
    case (Some p)
    with \<open>w_require w _ = None\<close> assms show ?thesis
      by (auto simp: resolve_protocol_def Let_def split: sum.splits)
  qed
next
  case (Some p)
  with assms show ?thesis
    by (auto simp: resolve_protocol_def Let_def split: sum.splits)
qed

lemma load_header_cases:
  assumes "load_header w r s = (Returned (RArchive r'), s1)" and "r < length (s_heap s)"
    and "a_protocol (s_heap s1 ! r) = None"
  shows "r' = r
     \<and> a_error (s_heap s1 ! r) = ErrorMsg (not_found (w_toString w) (a_baseBuild (s_heap s1 ! r)))
     \<and> unresolved w s1 r (a_baseBuild (s_heap s1 ! r))"
proof -
  let ?s1 = "update_archive r (\<lambda>a. a\<lparr>a_data := Map.empty\<rparr>) (s\<lparr>s_lastUsed := Some r\<rparr>)"
  from assms(1) obtain content where c: "a_content (s_heap s ! r) = Some content"
    using assms(2) by (cases "a_content (s_heap s ! r)") (auto simp: load_header_def Let_def)
  let ?s2 = "emit (Decode ''protocol29406'' ''decodeReplayHeader'') ?s1"
  from assms(1) c obtain h where
    h: "p_decode (w_protocol29406 w) ''decodeReplayHeader'' content = Inr h"
    using assms(2)
    by (cases "p_decode (w_protocol29406 w) ''decodeReplayHeader'' content")
       (auto simp: load_header_def Let_def)
  let ?s3 = "cache_put r HEADER (parseStrings (w_toString w) h) ?s2"
  from assms(1) c h obtain b where b: "base_build (parseStrings (w_toString w) h) = Inr b"
    using assms(2)
    by (cases "base_build (parseStrings (w_toString w) h)") (auto simp: load_header_def Let_def)
  let ?s4 = "update_archive r (\<lambda>a. a\<lparr>a_baseBuild := b\<rparr>) ?s3"
  from assms(1) c h b assms(2)
  have rp: "resolve_protocol w r content ?s4 = (Returned (RArchive r'), s1)"
    by (simp add: load_header_def Let_def)
  have len: "r < length (s_heap ?s4)" using assms(2) by simp
  note rc = resolve_protocol_cases[OF rp len assms(3)]
  have a4: "s_heap ?s4 ! r =
      (s_heap s ! r)\<lparr>a_data := [HEADER \<mapsto> parseStrings (w_toString w) h], a_baseBuild := b\<rparr>"
    using assms(2) by simp
  from rc a4 assms(2) c h b show ?thesis
    by (simp add: unresolved_def lookup_archive_def)
qed

lemma load_header_unresolved:
  assumes "unresolved w s r b"
  shows "\<exists>s'. load_header w r s = (Returned (RArchive r), s')
     \<and> s_trace s' = s_trace s @ [Decode ''protocol29406'' ''decodeReplayHeader'']
     \<and> a_error (s_heap s' ! r) = ErrorMsg (not_found (w_toString w) b)
     \<and> unresolved w s' r b"
proof -
  from assms obtain content h where "r < length (s_heap s)" "a_protocol (s_heap s ! r) = None"
    "a_content (s_heap s ! r) = Some content"
    "p_decode (w_protocol29406 w) ''decodeReplayHeader'' content = Inr h"
    "base_build (parseStrings (w_toString w) h) = Inr b"
    "w_require w (protocol_module (w_toString w) b) = None"
    by (rule unresolvedE)
  then show ?thesis
    by (simp add: load_header_def resolve_protocol_def Let_def unresolved_def lookup_archive_def)
qed

lemma get_unresolved:
  assumes "unresolved w s r b"
  shows "\<exists>s'. get w s name (FHandle r) keys = (Returned Undefined, s')
     \<and> s_trace s' = s_trace s @ [Decode ''protocol29406'' ''decodeReplayHeader'',
                                  diagnostic (not_found (w_toString w) b)]
     \<and> unresolved w s' r b"
proof -
  from assms have len: "r < length (s_heap s)" by (rule unresolvedE)
  from load_header_unresolved[OF assms] obtain s1 where
    lh: "load_header w r s = (Returned (RArchive r), s1)"
    and tr: "s_trace s1 = s_trace s @ [Decode ''protocol29406'' ''decodeReplayHeader'']"
    and err: "a_error (s_heap s1 ! r) = ErrorMsg (not_found (w_toString w) b)"
    and un: "unresolved w s1 r b" by blast
  have ne: "not_found (w_toString w) b \<noteq> []" by (simp add: not_found_def)
  have un': "unresolved w (emit e s1) r b" for e
    using un by (simp add: unresolved_heap[of "emit e s1" s1])
  from lh tr err un' ne show ?thesis
    by (simp add: get_def open_handle_reopens[OF len])
qed

lemma open_unresolved:
  assumes "open w s file noCache = (Returned (RArchive r), s1)"
    and "cached s file noCache = None"
    and "a_protocol (s_heap s1 ! r) = None"
  shows "a_error (s_heap s1 ! r) = ErrorMsg (not_found (w_toString w) (a_baseBuild (s_heap s1 ! r)))
     \<and> unresolved w s1 r (a_baseBuild (s_heap s1 ! r))"
proof -
  from assms(1,2) obtain r0 s0 where res: "resolve w s file = (Inr r0, s0)"
    and lh: "load_header w r0 s0 = (Returned (RArchive r), s1)"
    by (auto simp: open_def split: prod.splits sum.splits)
  from res have len: "r0 < length (s_heap s0)" by (rule resolve_handle)
  have "r = r0"
  proof (rule ccontr)
    assume "r \<noteq> r0"
    with lh show False
      by (auto simp: load_header_def resolve_protocol_def Let_def split: option.splits sum.splits)
  qed
  with lh assms(3) len show ?thesis
    using load_header_cases[of w r0 s0 r s1] by simp
qed

text \<open>
  Let \<^verbatim>\<open>open\<close> take its first branch and return archive \<open>r\<close> without a decoder
  set, and let \<open>b\<close> be the \<^verbatim>\<open>baseBuild\<close> it read from the header. Then no decoder set is
  registered for \<open>b\<close>, and the archive's error is the message \<^verbatim>\<open>protocol b not found\<close>. From
  then on, in every state in which the archive is still such an archive, \<^verbatim>\<open>get\<close> on it
  returns \<^verbatim>\<open>undefined\<close> for every section name and every keys argument, the effects of
  the call are the bootstrap header decode of its \<^verbatim>\<open>open\<close> and one diagnostic with that
  message (no container read, no call of a version-specific decoder), and the archive is
  still such an archive afterwards.
\<close>

lemma unresolved_protocol_reported:
  assumes "open w s file noCache = (Returned (RArchive r), s1)"
    and "cached s file noCache = None"
    and "a_protocol (s_heap s1 ! r) = None"
    and "b = a_baseBuild (s_heap s1 ! r)"
  shows "w_require w (protocol_module (w_toString w) b) = None
     \<and> a_error (s_heap s1 ! r) = ErrorMsg (''protocol '' @ to_string (w_toString w) b @ '' not found'')
     \<and> unresolved w s1 r b
     \<and> (\<forall>s2 name keys. unresolved w s2 r b \<longrightarrow>
          (\<exists>s3. get w s2 name (FHandle r) keys = (Returned Undefined, s3)
             \<and> s_trace s3 = s_trace s2 @
                 [Decode ''protocol29406'' ''decodeReplayHeader'',
                  Log ''info'' (''Heroprotocol: protocol '' @ to_string (w_toString w) b @ '' not found'')]
             \<and> unresolved w s3 r b))"
proof -
  from open_unresolved[OF assms(1-3)] assms(4)
  have err: "a_error (s_heap s1 ! r) = ErrorMsg (not_found (w_toString w) b)"
    and un: "unresolved w s1 r b" by simp_all
  from un have req: "w_require w (protocol_module (w_toString w) b) = None"
    by (rule unresolvedE)
  have msg: "diagnostic (not_found (w_toString w) b)
      = Log ''info'' (''Heroprotocol: protocol '' @ to_string (w_toString w) b @ '' not found'')"
    by (simp add: diagnostic_def not_found_def)
  have "\<exists>s3. get w s2 name (FHandle r) keys = (Returned Undefined, s3)
             \<and> s_trace s3 = s_trace s2 @
                 [Decode ''protocol29406'' ''decodeReplayHeader'',
                  Log ''info'' (''Heroprotocol: protocol '' @ to_string (w_toString w) b @ '' not found'')]
             \<and> unresolved w s3 r b" if "unresolved w s2 r b" for s2 name keys
    using get_unresolved[OF that, of name keys] by (simp only: msg)
  with err un req show ?thesis by (simp add: not_found_def)
qed

lemma state_b_fields:
  "fst (open world0 state0 replay_b False) = Returned (RArchive 0)"
  "cached state0 replay_b False = None"
  "a_protocol (s_heap state_b ! 0) = None"
  "a_baseBuild (s_heap state_b ! 0) = Num 47479"
  by (simp_all add: model_defs example_defs)

lemma unresolved_protocol_reported_instance:
  "open world0 state0 replay_b False = (Returned (RArchive 0), state_b)
   \<and> cached state0 replay_b False = None
   \<and> a_protocol (s_heap state_b ! 0) = None
   \<and> a_baseBuild (s_heap state_b ! 0) = Num 47479
   \<and> w_require world0 (protocol_module (w_toString world0) (Num 47479)) = None
   \<and> a_error (s_heap state_b ! 0) = ErrorMsg ''protocol 47479 not found''
   \<and> (\<exists>s3. get world0 state_b DETAILS (FHandle 0) None = (Returned Undefined, s3)
         \<and> s_trace s3 = s_trace state_b @
             [Decode ''protocol29406'' ''decodeReplayHeader'',
              Log ''info'' ''Heroprotocol: protocol 47479 not found''])"
proof -
  have o: "open world0 state0 replay_b False = (Returned (RArchive 0), state_b)"
    using state_b_fields(1) by (simp add: state_b_def prod_eq_iff)
  note t = unresolved_protocol_reported [OF o state_b_fields(2) state_b_fields(3) state_b_fields(4) [symmetric]]
  have si: "string_of_int 47479 = ''47479''"
    by (simp add: string_of_int_def)
  from t have un: "unresolved world0 state_b 0 (Num 47479)" by simp
  from t have "\<forall>s2 name keys. unresolved world0 s2 0 (Num 47479) \<longrightarrow>
          (\<exists>s3. get world0 s2 name (FHandle 0) keys = (Returned Undefined, s3)
             \<and> s_trace s3 = s_trace s2 @
                 [Decode ''protocol29406'' ''decodeReplayHeader'',
                  Log ''info'' ''Heroprotocol: protocol 47479 not found'']
             \<and> unresolved world0 s3 0 (Num 47479))"
    by (simp add: si)
  with un have "\<exists>s3. get world0 state_b DETAILS (FHandle 0) None = (Returned Undefined, s3)
         \<and> s_trace s3 = s_trace state_b @
             [Decode ''protocol29406'' ''decodeReplayHeader'',
              Log ''info'' ''Heroprotocol: protocol 47479 not found'']"
    by blast
  with o state_b_fields t show ?thesis by (simp add: si)
qed

text \<open>
  A cached archive with an error, asked for by its file name: \<^verbatim>\<open>open\<close> returns it from
  the cache, and \<^verbatim>\<open>get\<close> only writes the diagnostic.
\<close>

lemma get_cached_error:
  assumes "cached s file False = Some r" and "error_truthy (a_error (s_heap s ! r))"
  shows "get w s name file keys
     = (Returned Undefined, emit (diagnostic (error_string (a_error (s_heap s ! r)))) s)"
  using assms by (simp add: get_def open_cached)

lemma state_b_cached:
  "cached state_b replay_b False = Some 0"
  "a_error (s_heap state_b ! 0) = ErrorMsg ''protocol 47479 not found''"
  by (simp_all add: model_defs example_defs not_found_def)

text \<open>
  Claim C3, evaluated. The header of \<^verbatim>\<open>b.StormReplay\<close> carries build 47479, which has no
  decoder set; after \<^verbatim>\<open>open\<close> the archive's error is \<^verbatim>\<open>protocol 47479 not found\<close>.
  \<^verbatim>\<open>get(DETAILS, archive)\<close> returns \<^verbatim>\<open>undefined\<close> and logs one diagnostic, but first its
  \<^verbatim>\<open>open(archive)\<close> decodes the header section again with the bootstrap decoder set. Asked
  for by the cached file name instead, the same \<^verbatim>\<open>get\<close> decodes nothing.
\<close>

theorem get_unresolved_decodes_header:
  "fst (open world0 state0 replay_b False) = Returned (RArchive 0)
   \<and> a_baseBuild (s_heap state_b ! 0) = Num 47479
   \<and> a_error (s_heap state_b ! 0) = ErrorMsg ''protocol 47479 not found''
   \<and> fst (get world0 state_b DETAILS (FHandle 0) None) = Returned Undefined
   \<and> s_trace (snd (get world0 state_b DETAILS (FHandle 0) None))
       = s_trace state_b @
         [Decode ''protocol29406'' ''decodeReplayHeader'',
          Log ''info'' ''Heroprotocol: protocol 47479 not found'']
   \<and> get world0 state_b DETAILS replay_b None
       = (Returned Undefined, emit (Log ''info'' ''Heroprotocol: protocol 47479 not found'') state_b)"
proof -
  from unresolved_protocol_reported_instance obtain s3 where
    g: "get world0 state_b DETAILS (FHandle 0) None = (Returned Undefined, s3)"
    and t: "s_trace s3 = s_trace state_b @
             [Decode ''protocol29406'' ''decodeReplayHeader'',
              Log ''info'' ''Heroprotocol: protocol 47479 not found'']"
    by blast
  have p: "get world0 state_b DETAILS replay_b None
       = (Returned Undefined, emit (Log ''info'' ''Heroprotocol: protocol 47479 not found'') state_b)"
    using get_cached_error [OF state_b_cached(1), of world0 DETAILS None] state_b_cached(2)
    by (simp add: diagnostic_def)
  from g t p state_b_fields state_b_cached show ?thesis by simp
qed


section \<open>The event filter\<close>

lemma check_keys_appends:
  "check_keys ts event crit ks bucket = Inr b
   \<Longrightarrow> \<exists>n. b = bucket @ replicate n (parseStrings ts event)"
proof (induction ks arbitrary: bucket)
  case Nil
  then show ?case by simp
next
  case (Cons key ks)
  from Cons.prems obtain v where v: "get_prop (parseStrings ts event) key = Inr v"
    by (cases "get_prop (parseStrings ts event) key") simp_all
  show ?case
  proof (cases "strict_eq v (field crit key)")
    case True
    with Cons.prems v
    have "check_keys ts event crit ks (bucket @ [parseStrings ts event]) = Inr b" by simp
    from Cons.IH[OF this] obtain n where
      "b = (bucket @ [parseStrings ts event]) @ replicate n (parseStrings ts event)" ..
    then have "b = bucket @ replicate (Suc n) (parseStrings ts event)" by simp
    then show ?thesis ..
  next
    case False
    with Cons.prems v have "check_keys ts event crit ks bucket = Inr b" by simp
    from Cons.IH[OF this] show ?thesis .
  qed
qed

lemma check_event_length:
  "check_event ts event keys data = Inr d \<Longrightarrow> length d = length data"
  by (induction ts event keys data arbitrary: d rule: check_event.induct)
     (auto split: sum.splits)

lemma filter_events_length:
  "filter_events ts events keys data = Inr d \<Longrightarrow> length d = length data"
  by (induction events arbitrary: data) (auto split: sum.splits dest: check_event_length)

lemma get_filtered_frame:
  "s_heap (snd (get_filtered w r p name keys s)) = s_heap s
   \<and> s_lastUsed (snd (get_filtered w r p name keys s)) = s_lastUsed s"
  by (simp add: get_filtered_def Let_def split: sum.splits prod.splits option.splits)


text \<open>
  Claim C1, evaluated. The game events of the example are \<open>event1\<close> and \<open>event2\<close>. With
  the one criterion \<^verbatim>\<open>{m_playerId: 1, m_unitTag: 7}\<close>, \<^verbatim>\<open>get\<close> returns one bucket; \<open>event1\<close>
  equals the criterion in both fields and is in the bucket twice, \<open>event2\<close> equals it in
  one field and is in the bucket once.
\<close>

theorem get_filtered_pushes_per_field:
  "fst (get world0 state0 GAME_EVENTS replay_a None) = Returned (Arr [event1, event2])
   \<and> fst (get world0 state0 GAME_EVENTS replay_a (Some two_fields))
       = Returned (Arr [Arr [event1, event1, event2]])"
  by (simp add: model_defs example_defs)

section \<open>The archive cache\<close>

text \<open>
  Claim C2, evaluated. Opening the relative path \<^verbatim>\<open>a.StormReplay\<close> twice reads the
  container twice and returns two archive objects: the cached file name is the absolute
  path, which the relative path never equals. Opening archive object 0 again returns the
  same object, and decodes its header again with both decoder sets.
\<close>

theorem open_twice_reopens:
  "fst (open world0 state0 replay_a_relative False) = Returned (RArchive 0)
   \<and> fst (open world0 (snd (open world0 state0 replay_a_relative False)) replay_a_relative False)
       = Returned (RArchive 1)
   \<and> s_trace (snd (open world0 (snd (open world0 state0 replay_a_relative False))
                      replay_a_relative False))
       = s_trace (snd (open world0 state0 replay_a_relative False)) @
         [OpenContainer ''/home/u/a.StormReplay'',
          Decode ''protocol29406'' ''decodeReplayHeader'',
          Decode ''archive.protocol'' ''decodeReplayHeader'']
   \<and> fst (open world0 state_a (FHandle 0) False) = Returned (RArchive 0)
   \<and> s_trace (snd (open world0 state_a (FHandle 0) False))
       = s_trace state_a @
         [Decode ''protocol29406'' ''decodeReplayHeader'',
          Decode ''archive.protocol'' ''decodeReplayHeader'']"
  by (simp add: model_defs example_defs)

text \<open>
  Claim C5, evaluated. After \<^verbatim>\<open>get(DETAILS, archive)\<close> the details are stored on the
  archive. The second \<^verbatim>\<open>get(DETAILS, archive)\<close> returns an equal value, but it decodes
  the header again, reads the details from the container again and decodes them again:
  its \<^verbatim>\<open>open(archive)\<close> has reset \<^verbatim>\<open>archive.data\<close>.
\<close>

theorem get_twice_decodes_again:
  "fst (get world0 state_a DETAILS (FHandle 0) None)
     = Returned (Obj [(''m_title'', Str ''Cursed Hollow'')])
   \<and> a_data (s_heap state_d ! 0) DETAILS = Some (Obj [(''m_title'', Str ''Cursed Hollow'')])
   \<and> fst (get world0 state_d DETAILS (FHandle 0) None)
       = Returned (Obj [(''m_title'', Str ''Cursed Hollow'')])
   \<and> s_trace (snd (get world0 state_d DETAILS (FHandle 0) None))
       = s_trace state_d @
         [Decode ''protocol29406'' ''decodeReplayHeader'',
          Decode ''archive.protocol'' ''decodeReplayHeader'',
          ReadFile 0 ''replay.details'',
          Decode ''archive.protocol'' ''decodeReplayDetails'']"
  by (simp add: model_defs example_defs)

text \<open>
  Claim C6, evaluated. After \<^verbatim>\<open>get(GAME_EVENTS, archive)\<close> the events are stored on the
  archive. \<^verbatim>\<open>get(GAME_EVENTS, archive, keys)\<close> returns the buckets and stores nothing, and
  afterwards the archive holds no game events at all.
\<close>

theorem get_with_keys_drops_cache:
  "a_data (s_heap state_e ! 0) GAME_EVENTS = Some (Arr [event1, event2])
   \<and> fst (get world0 state_e GAME_EVENTS (FHandle 0) (Some two_fields))
       = Returned (Arr [Arr [event1, event1, event2]])
   \<and> a_data (s_heap (snd (get world0 state_e GAME_EVENTS (FHandle 0) (Some two_fields))) ! 0)
        GAME_EVENTS = None"
  by (simp add: model_defs example_defs)

end
